theory Spec2Isabelle
  imports Main "HOL-Library.AList"
begin

section \<open>Values, dictionaries and errors\<close>

text \<open>
  The tools of \<^verbatim>\<open>server.py\<close> exchange JSON-like Python values. Dictionaries keep
  their insertion order (\<^verbatim>\<open>list(notes_db.values())\<close> depends on it), so a dictionary
  is an association list: \<open>AList.update\<close> overwrites a key in place or appends a
  new one at the end, as \<^verbatim>\<open>d[k] = v\<close> does, and \<open>AList.delete\<close> is \<^verbatim>\<open>del d[k]\<close>.
\<close>

datatype pyval =
    PNone
  | PBool bool
  | PInt int
  | PStr string
  | PList "pyval list"
  | PDict "(string \<times> pyval) list"

text \<open>
  An exception leaving a tool is the left summand of its result. \<open>Raised\<close> stands
  for whatever the event manager itself may raise.
\<close>

datatype py_error = KeyError | TypeError | Raised string

definition keys :: "(string \<times> 'v) list \<Rightarrow> string list" where
  "keys d = map fst d"

definition vals :: "(string \<times> 'v) list \<Rightarrow> 'v list" where
  "vals d = map snd d"

definition has_key :: "pyval \<Rightarrow> string \<Rightarrow> bool" where
  "has_key v k = (case v of PDict d \<Rightarrow> k \<in> set (keys d) | _ \<Rightarrow> False)"

definition dict_get :: "pyval \<Rightarrow> string \<Rightarrow> pyval option" where
  "dict_get v k = (case v of PDict d \<Rightarrow> map_of d k | _ \<Rightarrow> None)"

definition dict_set :: "pyval \<Rightarrow> string \<Rightarrow> pyval \<Rightarrow> pyval" where
  "dict_set v k x = (case v of PDict d \<Rightarrow> PDict (AList.update k x d) | _ \<Rightarrow> v)"

text \<open>\<^verbatim>\<open>len(x)\<close> raises \<^verbatim>\<open>TypeError\<close> on \<^verbatim>\<open>None\<close>, booleans and integers.\<close>

definition has_len :: "pyval \<Rightarrow> bool" where
  "has_len v = (case v of PStr _ \<Rightarrow> True | PList _ \<Rightarrow> True | PDict _ \<Rightarrow> True | _ \<Rightarrow> False)"

section \<open>Events and the event bus\<close>

text \<open>
  Modelled from the spec: the enumeration \<^verbatim>\<open>EventType\<close> of \<^verbatim>\<open>event_manager.py\<close>, which
  is not among the sources. \<^verbatim>\<open>server.py\<close> names its members \<^verbatim>\<open>LIST\<close>, \<^verbatim>\<open>CREATE\<close> and
  \<^verbatim>\<open>DELETE\<close>; the spec lists \<^verbatim>\<open>CREATE | UPDATE | DELETE | LIST\<close>.
\<close>

datatype EventType = CREATE | UPDATE | DELETE | LIST

text \<open>
  Modelled from the spec: the enumeration \<^verbatim>\<open>EventPriority\<close> of \<^verbatim>\<open>event_manager.py\<close>,
  which is not among the sources. The spec orders it
  \<^verbatim>\<open>LOW(0) < NORMAL(1) < HIGH(2) < CRITICAL(3)\<close>.
\<close>

datatype EventPriority = LOW | NORMAL | HIGH | CRITICAL

fun priority_value :: "EventPriority \<Rightarrow> int" where
  "priority_value LOW = 0"
| "priority_value NORMAL = 1"
| "priority_value HIGH = 2"
| "priority_value CRITICAL = 3"

text \<open>
  Lines 173-179 of \<^verbatim>\<open>server.py\<close> produce either a member of the enumeration or a
  plain integer (\<^verbatim>\<open>priority_map.get(priority_min, 1)\<close>).
\<close>

datatype priority_val = PrioEnum EventPriority | PrioInt int

fun numeric :: "priority_val \<Rightarrow> int" where
  "numeric (PrioEnum p) = priority_value p"
| "numeric (PrioInt i) = i"

text \<open>
  Modelled from the spec: an event of \<^verbatim>\<open>event_manager.py\<close>, which is not among the
  sources, with the fields the spec gives it: id, type, target, priority, payload
  and an optional hint for the user interface.
\<close>

record event =
  ev_id :: int
  ev_type :: EventType
  ev_target :: string
  ev_priority :: EventPriority
  ev_payload :: pyval
  ev_ui_hint :: "string option"

text \<open>
  Modelled from the spec: the state of the event manager of \<^verbatim>\<open>event_manager.py\<close>,
  which is not among the sources. The spec describes a ring buffer of bounded
  capacity holding the resident events in ascending id order, ids assigned from a
  counter that only grows, and a notification of the wait scheduler and the
  broadcaster after each append; \<open>notified\<close> records the events handed to them.
\<close>

record bus =
  log :: "event list"
  last_id :: int
  capacity :: nat
  notified :: "event list"

record event_filter =
  f_targets :: "string list option"
  f_priority_min :: priority_val
  f_since :: "int option"

text \<open>The keyword arguments of the call at lines 191-197.\<close>

record wait_call =
  wc_connection_id :: string
  wc_targets :: "string list option"
  wc_timeout :: int
  wc_filters :: "event_filter option"
  wc_since :: "int option"

section \<open>The module state\<close>

text \<open>
  The module globals of \<^verbatim>\<open>server.py\<close>. Lines 20-34 bind \<^verbatim>\<open>event_manager\<close>,
  \<^verbatim>\<open>EventType\<close>, \<^verbatim>\<open>EventPriority\<close>, \<^verbatim>\<open>emit_event\<close> and \<^verbatim>\<open>EventFilter\<close> by one
  import statement: either all of them are bound to the event system, or (on
  \<^verbatim>\<open>ImportError\<close>, the standalone mode) the first three and the last are
  \<^verbatim>\<open>None\<close> and \<^verbatim>\<open>emit_event\<close> is a decorator that returns the function unchanged.
  \<open>event_manager w = None\<close> is the second case.

  Event ids and cursors are integers, as in the spec; \<^verbatim>\<open>server.py\<close> only passes
  cursors through (\<^verbatim>\<open>since\<close>, \<^verbatim>\<open>last_sync_id\<close>).
\<close>

text \<open>
  A task and a note are dictionaries with a fixed set of keys, written in one
  place each (\<^verbatim>\<open>task_create\<close>, \<^verbatim>\<open>write_note\<close>); \<open>task_dict\<close> and \<open>note_dict\<close> give
  them as the dictionaries the tools return.
\<close>

record task_rec =
  t_id :: string
  t_title :: string
  t_description :: string
  t_priority :: string
  t_status :: string
  t_created_at :: string
  t_updated_at :: string

record note_rec =
  n_id :: string
  n_title :: string
  n_summary :: string
  n_tags :: "string list"
  n_content :: string
  n_created_at :: string
  n_updated_at :: string

definition task_dict :: "task_rec \<Rightarrow> pyval" where
  "task_dict t = PDict
     [(''id'', PStr (t_id t)),
      (''title'', PStr (t_title t)),
      (''description'', PStr (t_description t)),
      (''priority'', PStr (t_priority t)),
      (''status'', PStr (t_status t)),
      (''created_at'', PStr (t_created_at t)),
      (''updated_at'', PStr (t_updated_at t))]"

definition note_dict :: "note_rec \<Rightarrow> pyval" where
  "note_dict n = PDict
     [(''id'', PStr (n_id n)),
      (''title'', PStr (n_title n)),
      (''summary'', PStr (n_summary n)),
      (''tags'', PList (map PStr (n_tags n))),
      (''content'', PStr (n_content n)),
      (''created_at'', PStr (n_created_at n)),
      (''updated_at'', PStr (n_updated_at n))]"

record world =
  event_manager :: "bus option"
  tasks_db :: "(string \<times> task_rec) list"
  task_counter :: nat
  notes_db :: "(string \<times> note_rec) list"
  note_counter :: nat

definition imported :: "world \<Rightarrow> bool" where
  "imported w = (event_manager w \<noteq> None)"

section \<open>Long polling: \<^verbatim>\<open>wait_for_updates\<close>\<close>

definition unavailable_result :: pyval where
  "unavailable_result = PDict
     [(''status'', PStr ''error''),
      (''error'', PStr ''Event system not available''),
      (''events'', PList []),
      (''summary'', PDict [])]"

definition priority_map :: "bool \<Rightarrow> (string \<times> priority_val) list" where
  "priority_map EventPriority_bound =
     [(''low'', if EventPriority_bound then PrioEnum LOW else PrioInt 0),
      (''normal'', if EventPriority_bound then PrioEnum NORMAL else PrioInt 1),
      (''high'', if EventPriority_bound then PrioEnum HIGH else PrioInt 2),
      (''critical'', if EventPriority_bound then PrioEnum CRITICAL else PrioInt 3)]"

definition priority_of :: "bool \<Rightarrow> string \<Rightarrow> priority_val" where
  "priority_of EventPriority_bound priority_min =
     (case map_of (priority_map EventPriority_bound) priority_min of
        Some p \<Rightarrow> p
      | None \<Rightarrow> PrioInt 1)"

definition filter_obj :: "bool \<Rightarrow> string list option \<Rightarrow> priority_val \<Rightarrow> int option
    \<Rightarrow> event_filter option" where
  "filter_obj EventFilter_bound targets priority since =
     (if EventFilter_bound
      then Some \<lparr>f_targets = targets, f_priority_min = priority, f_since = since\<rparr>
      else None)"

text \<open>The call that lines 191-197 make on the event manager.\<close>

definition forwarded_call :: "world \<Rightarrow> string list option \<Rightarrow> int \<Rightarrow> int option \<Rightarrow> string
    \<Rightarrow> wait_call" where
  "forwarded_call w targets timeout since priority_min =
     \<lparr>wc_connection_id = ''claude'',
      wc_targets = targets,
      wc_timeout = min timeout 300,
      wc_filters = filter_obj (imported w) targets (priority_of (imported w) priority_min) since,
      wc_since = since\<rparr>"

text \<open>
  Line 199 reads \<^verbatim>\<open>result['status']\<close> and \<^verbatim>\<open>len(result.get('events', []))\<close> for the
  log message before the result is returned.
\<close>

definition logged :: "pyval \<Rightarrow> py_error + pyval" where
  "logged result =
     (case result of
        PDict d \<Rightarrow>
          (case map_of d ''status'' of
             None \<Rightarrow> Inl KeyError
           | Some _ \<Rightarrow>
               (if has_len (case map_of d ''events'' of None \<Rightarrow> PList [] | Some v \<Rightarrow> v)
                then Inr result else Inl TypeError))
      | _ \<Rightarrow> Inl TypeError)"

text \<open>
  \<^verbatim>\<open>event_manager.wait_for_updates\<close> is not among the sources and suspends its
  caller; it is the parameter \<open>em_wait\<close>, which may raise and may change the bus.
\<close>

definition wait_for_updates ::
  "(wait_call \<Rightarrow> bus \<Rightarrow> (py_error + pyval) \<times> bus) \<Rightarrow> world
    \<Rightarrow> string list option \<Rightarrow> int \<Rightarrow> int option \<Rightarrow> string \<Rightarrow> (py_error + pyval) \<times> world" where
  "wait_for_updates em_wait w targets timeout since priority_min =
     (case event_manager w of
        None \<Rightarrow> (Inr unavailable_result, w)
      | Some b \<Rightarrow>
          (case em_wait (forwarded_call w targets timeout since priority_min) b of
             (Inl e, b') \<Rightarrow> (Inl e, w\<lparr>event_manager := Some b'\<rparr>)
           | (Inr result, b') \<Rightarrow> (logged result, w\<lparr>event_manager := Some b'\<rparr>)))"

section \<open>The event log and the emit adapter\<close>

text \<open>
  Modelled from the spec: the draft handed to \<^verbatim>\<open>emit\<close>, an event that has no id yet.
\<close>

record draft =
  d_type :: EventType
  d_target :: string
  d_priority :: EventPriority
  d_payload :: pyval
  d_ui_hint :: "string option"

text \<open>
  Modelled from the spec: \<^verbatim>\<open>EventLog.append\<close> of \<^verbatim>\<open>event_manager.py\<close>, which is not
  among the sources. An append assigns the next id, stores the event and drops the
  oldest entries beyond the capacity.
\<close>

definition EventLog_append :: "draft \<Rightarrow> bus \<Rightarrow> event \<times> bus" where
  "EventLog_append d b =
     (let e = \<lparr>ev_id = last_id b + 1, ev_type = d_type d, ev_target = d_target d,
                ev_priority = d_priority d, ev_payload = d_payload d,
                ev_ui_hint = d_ui_hint d\<rparr>;
          l = log b @ [e]
      in (e, b\<lparr>log := drop (length l - capacity b) l, last_id := last_id b + 1\<rparr>))"

text \<open>
  Modelled from the spec: \<^verbatim>\<open>events_since\<close> of \<^verbatim>\<open>event_manager.py\<close>, which is not among
  the sources: the resident events with an id greater than the cursor, in order.
\<close>

definition events_since :: "int \<Rightarrow> bus \<Rightarrow> event list" where
  "events_since cursor b = filter (\<lambda>e. cursor < ev_id e) (log b)"

text \<open>
  Modelled from the spec: \<^verbatim>\<open>emit\<close> of \<^verbatim>\<open>event_manager.py\<close>, which is not among the
  sources: the log assigns an id and appends, then the wait scheduler and the
  broadcaster are notified of the event.
\<close>

definition emit :: "draft \<Rightarrow> bus \<Rightarrow> event \<times> bus" where
  "emit d b =
     (case EventLog_append d b of
        (e, b') \<Rightarrow> (e, b'\<lparr>notified := notified b' @ [e]\<rparr>))"

text \<open>
  Modelled from the spec: the decorator \<^verbatim>\<open>emit_event\<close> of \<^verbatim>\<open>event_manager.py\<close>,
  which is not among the sources (the emit adapter of the spec). It runs the
  operation, and after a successful return emits one event built from the
  decorator's arguments and the operation's outcome; no event is emitted for a
  failed operation. An operation of \<^verbatim>\<open>server.py\<close> fails by returning a dictionary
  with the key \<^verbatim>\<open>error\<close>; a raised exception is a failure as well. The outcome is
  the payload.
\<close>

definition emit_adapter :: "EventType \<Rightarrow> string \<Rightarrow> string option \<Rightarrow> EventPriority
    \<Rightarrow> (world \<Rightarrow> (py_error + pyval) \<times> world) \<Rightarrow> world \<Rightarrow> (py_error + pyval) \<times> world" where
  "emit_adapter ty target ui_hint priority func w =
     (case func w of
        (Inl e, w') \<Rightarrow> (Inl e, w')
      | (Inr result, w') \<Rightarrow>
          (if has_key result ''error'' then (Inr result, w')
           else
             (case event_manager w' of
                None \<Rightarrow> (Inr result, w')
              | Some b \<Rightarrow>
                  (Inr result,
                   w'\<lparr>event_manager :=
                        Some (snd (emit \<lparr>d_type = ty, d_target = target, d_priority = priority,
                                         d_payload = result, d_ui_hint = ui_hint\<rparr> b))\<rparr>))))"

text \<open>
  The name \<^verbatim>\<open>emit_event\<close> as \<^verbatim>\<open>server.py\<close> binds it: the decorator of the event
  system when the import succeeded, and otherwise
  \<^verbatim>\<open>lambda *args, **kwargs: lambda func: func\<close> (line 33), which ignores its
  arguments and leaves the function as it is.
\<close>

definition emit_event :: "EventType \<Rightarrow> string \<Rightarrow> string option \<Rightarrow> EventPriority
    \<Rightarrow> (world \<Rightarrow> (py_error + pyval) \<times> world) \<Rightarrow> world \<Rightarrow> (py_error + pyval) \<times> world" where
  "emit_event ty target ui_hint priority func w =
     (if imported w then emit_adapter ty target ui_hint priority func w else func w)"

text \<open>The events handed to waiters and subscribers between two module states.\<close>

definition emitted :: "world \<Rightarrow> world \<Rightarrow> event list" where
  "emitted w w' =
     (case (event_manager w, event_manager w') of
        (Some b, Some b') \<Rightarrow> drop (length (notified b)) (notified b')
      | _ \<Rightarrow> [])"

section \<open>Catching up: \<^verbatim>\<open>sync_changes\<close>\<close>

fun type_name :: "EventType \<Rightarrow> string" where
  "type_name CREATE = ''CREATE''"
| "type_name UPDATE = ''UPDATE''"
| "type_name DELETE = ''DELETE''"
| "type_name LIST = ''LIST''"

text \<open>
  Modelled from the spec: an event as the dictionary returned to a caller
  (\<^verbatim>\<open>{id:1, type:"CREATE", target:"note", ...}\<close> in the spec's scenarios); the
  conversion is part of \<^verbatim>\<open>event_manager.py\<close>, which is not among the sources.
\<close>

definition event_dict :: "event \<Rightarrow> pyval" where
  "event_dict e = PDict
     [(''id'', PInt (ev_id e)),
      (''type'', PStr (type_name (ev_type e))),
      (''target'', PStr (ev_target e)),
      (''priority'', PInt (priority_value (ev_priority e))),
      (''payload'', ev_payload e),
      (''ui_hint'', case ev_ui_hint e of None \<Rightarrow> PNone | Some h \<Rightarrow> PStr h)]"

definition cursor_val :: "int option \<Rightarrow> pyval" where
  "cursor_val c = (case c of None \<Rightarrow> PNone | Some i \<Rightarrow> PInt i)"

text \<open>
  Modelled from the spec: \<^verbatim>\<open>event_manager.sync_changes\<close>, which is not among the
  sources. The cursor defaults to 0; the events are \<^verbatim>\<open>events_since(last_sync_id)\<close>,
  unfiltered; \<^verbatim>\<open>next_sync_id\<close> is the id of the last returned event, or the
  cursor unchanged if none is returned. The call reads the log and changes
  nothing. The snapshot is attached by the caller (lines 236-240).
\<close>

definition em_sync_changes :: "bus \<Rightarrow> string \<Rightarrow> int option \<Rightarrow> bool \<Rightarrow> pyval" where
  "em_sync_changes b connection_id last_sync_id include_full_state =
     (let evs = events_since (case last_sync_id of None \<Rightarrow> 0 | Some c \<Rightarrow> c) b
      in PDict
           [(''events'', PList (map event_dict evs)),
            (''next_sync_id'',
               if evs = [] then cursor_val last_sync_id else PInt (ev_id (last evs)))])"

text \<open>
  \<^verbatim>\<open>sync_changes\<close> of \<^verbatim>\<open>server.py\<close> (lines 203-242). Without the event system it
  answers with a fixed dictionary; otherwise it asks the event manager and, if the
  full state is requested, stores the two databases under the key \<^verbatim>\<open>state\<close>.
\<close>

definition full_state :: "world \<Rightarrow> pyval" where
  "full_state w = PDict
     [(''notes'', PList (map note_dict (vals (notes_db w)))),
      (''tasks'', PList (map task_dict (vals (tasks_db w))))]"

definition sync_changes :: "world \<Rightarrow> int option \<Rightarrow> bool \<Rightarrow> (py_error + pyval) \<times> world" where
  "sync_changes w last_sync_id include_full_state =
     (case event_manager w of
        None \<Rightarrow>
          (Inr (PDict [(''events'', PList []),
                       (''next_sync_id'', cursor_val last_sync_id),
                       (''state'', PDict [])]), w)
      | Some b \<Rightarrow>
          (let result = em_sync_changes b ''claude'' last_sync_id include_full_state
           in (Inr (if include_full_state then dict_set result ''state'' (full_state w)
                    else result), w)))"


section \<open>Task management\<close>

text \<open>Decimal digits of a counter, for \<^verbatim>\<open>f"task_{task_counter}"\<close>.\<close>

definition digit_char :: "nat \<Rightarrow> char" where
  "digit_char d = char_of (48 + d)"

function str_nat :: "nat \<Rightarrow> string" where
  "str_nat n = (if n < 10 then [digit_char n] else str_nat (n div 10) @ [digit_char (n mod 10)])"
  by pat_completeness auto
termination
  by (relation "measure id") auto

text \<open>Truthiness of an optional string argument: \<^verbatim>\<open>None\<close> and \<^verbatim>\<open>""\<close> are false.\<close>

definition truthy :: "string option \<Rightarrow> bool" where
  "truthy s = (case s of None \<Rightarrow> False | Some x \<Rightarrow> x \<noteq> [])"

text \<open>
  The clock (\<^verbatim>\<open>datetime.now().isoformat()\<close>) is read once per timestamp; each
  reading is an argument.
\<close>

definition task_create :: "world \<Rightarrow> string \<Rightarrow> string \<Rightarrow> string \<Rightarrow> string \<Rightarrow> string
    \<Rightarrow> (py_error + pyval) \<times> world" where
  "task_create w title description priority now_created now_updated =
     (let counter = task_counter w + 1;
          task_id = ''task_'' @ str_nat counter;
          t = \<lparr>t_id = task_id, t_title = title, t_description = description,
               t_priority = priority, t_status = ''pending'',
               t_created_at = now_created, t_updated_at = now_updated\<rparr>
      in (Inr (task_dict t),
          w\<lparr>task_counter := counter, tasks_db := AList.update task_id t (tasks_db w)\<rparr>))"

definition task_list :: "world \<Rightarrow> string option \<Rightarrow> (py_error + pyval) \<times> world" where
  "task_list w status =
     (let tasks = vals (tasks_db w);
          tasks' = (if truthy status then filter (\<lambda>t. Some (t_status t) = status) tasks
                    else tasks)
      in (Inr (PList (map task_dict tasks')), w))"

definition task_update :: "world \<Rightarrow> string \<Rightarrow> string option \<Rightarrow> string option
    \<Rightarrow> string option \<Rightarrow> string option \<Rightarrow> string \<Rightarrow> (py_error + pyval) \<times> world" where
  "task_update w task_id status title description priority now =
     (case map_of (tasks_db w) task_id of
        None \<Rightarrow> (Inr (PDict [(''error'', PStr (''Task '' @ task_id @ '' not found''))]), w)
      | Some t \<Rightarrow>
          (let t1 = (if truthy status then t\<lparr>t_status := the status\<rparr> else t);
               t2 = (if truthy title then t1\<lparr>t_title := the title\<rparr> else t1);
               t3 = (if truthy description then t2\<lparr>t_description := the description\<rparr> else t2);
               t4 = (if truthy priority then t3\<lparr>t_priority := the priority\<rparr> else t3);
               t5 = t4\<lparr>t_updated_at := now\<rparr>
           in (Inr (task_dict t5), w\<lparr>tasks_db := AList.update task_id t5 (tasks_db w)\<rparr>)))"

definition task_delete :: "world \<Rightarrow> string \<Rightarrow> (py_error + pyval) \<times> world" where
  "task_delete w task_id =
     (if task_id \<notin> set (keys (tasks_db w))
      then (Inr (PDict [(''error'', PStr (''Task '' @ task_id @ '' not found''))]), w)
      else (Inr (PDict [(''success'', PBool True),
                        (''message'', PStr (''Task '' @ task_id @ '' deleted''))]),
            w\<lparr>tasks_db := AList.delete task_id (tasks_db w)\<rparr>))"

section \<open>Notes management, with event emission\<close>

text \<open>
  \<^verbatim>\<open>title.lower().replace(" ", "-")[:30]\<close>, on ASCII titles: a character is a byte
  here, and only the letters A to Z have a lower-case form.
\<close>

definition lower_char :: "char \<Rightarrow> char" where
  "lower_char c =
     (if 65 \<le> (of_char c :: nat) \<and> (of_char c :: nat) \<le> 90
      then char_of ((of_char c :: nat) + 32) else c)"

definition base_id :: "string \<Rightarrow> string" where
  "base_id title =
     take 30 (map (\<lambda>c. if c = CHR '' '' then CHR ''-'' else c) (map lower_char title))"



text \<open>
  Lines 414-419: an absent or empty \<^verbatim>\<open>note_id\<close> makes the tool count up and build
  an id from the title and the counter.
\<close>

definition next_note_counter :: "world \<Rightarrow> string option \<Rightarrow> nat" where
  "next_note_counter w note_id =
     (if truthy note_id then note_counter w else note_counter w + 1)"

definition resolved_id :: "world \<Rightarrow> string \<Rightarrow> string option \<Rightarrow> string" where
  "resolved_id w title note_id =
     (if truthy note_id then the note_id
      else base_id title @ ''-'' @ str_nat (note_counter w + 1))"

definition write_note_body :: "world \<Rightarrow> string \<Rightarrow> string \<Rightarrow> string \<Rightarrow> string list option
    \<Rightarrow> string option \<Rightarrow> string \<Rightarrow> string \<Rightarrow> (py_error + pyval) \<times> world" where
  "write_note_body w title content summary tags note_id now_created now_updated =
     (let nid = resolved_id w title note_id;
          n = \<lparr>n_id = nid, n_title = title, n_summary = summary,
               n_tags = (case tags of None \<Rightarrow> [] | Some ts \<Rightarrow> ts),
               n_content = content,
               n_created_at = (case map_of (notes_db w) nid of
                                 None \<Rightarrow> now_created
                               | Some old \<Rightarrow> n_created_at old),
               n_updated_at = now_updated\<rparr>;
          is_update = (nid \<in> set (keys (notes_db w)));
          action = (if is_update then ''updated'' else ''created'')
      in (Inr (PDict [(''success'', PBool True),
                      (''action'', PStr action),
                      (''note'', note_dict n)]),
          w\<lparr>note_counter := next_note_counter w note_id,
            notes_db := AList.update nid n (notes_db w)\<rparr>))"

definition delete_note_body :: "world \<Rightarrow> string \<Rightarrow> (py_error + pyval) \<times> world" where
  "delete_note_body w note_id =
     (if note_id \<notin> set (keys (notes_db w))
      then (Inr (PDict [(''error'', PStr (''Note with ID '' @ [CHR 0x27] @ note_id @ [CHR 0x27]
                                            @ '' not found''))]), w)
      else (Inr (PDict [(''success'', PBool True),
                        (''message'', PStr (''Note with ID '' @ [CHR 0x27] @ note_id @ [CHR 0x27]
                                              @ '' has been deleted''))]),
            w\<lparr>notes_db := AList.delete note_id (notes_db w)\<rparr>))"


definition write_note :: "world \<Rightarrow> string \<Rightarrow> string \<Rightarrow> string \<Rightarrow> string list option
    \<Rightarrow> string option \<Rightarrow> string \<Rightarrow> string \<Rightarrow> (py_error + pyval) \<times> world" where
  "write_note w title content summary tags note_id now_created now_updated =
     emit_event CREATE ''note'' (Some ''navigate_to'') HIGH
       (\<lambda>w. write_note_body w title content summary tags note_id now_created now_updated) w"

definition delete_note :: "world \<Rightarrow> string \<Rightarrow> (py_error + pyval) \<times> world" where
  "delete_note w note_id =
     emit_event DELETE ''note'' None HIGH (\<lambda>w. delete_note_body w note_id) w"



datatype task_call =
    TaskCreate string string string string string
  | TaskList "string option"
  | TaskUpdate string "string option" "string option" "string option" "string option" string
  | TaskDelete string

fun run_task_call :: "world \<Rightarrow> task_call \<Rightarrow> (py_error + pyval) \<times> world" where
  "run_task_call w (TaskCreate title description priority now_created now_updated) =
     task_create w title description priority now_created now_updated"
| "run_task_call w (TaskList status) = task_list w status"
| "run_task_call w (TaskUpdate task_id status title description priority now) =
     task_update w task_id status title description priority now"
| "run_task_call w (TaskDelete task_id) = task_delete w task_id"

section \<open>Concrete module states\<close>

text \<open>
  The module state right after start-up, in standalone mode and with the event
  system started on an empty log; a scheduler that finds nothing and reports the
  timeout it was given as the time it waited; and the state after one note has
  been written.
\<close>

definition standalone :: world where
  "standalone = \<lparr>event_manager = None, tasks_db = [], task_counter = 0,
                  notes_db = [], note_counter = 0\<rparr>"

definition serving :: world where
  "serving = \<lparr>event_manager = Some \<lparr>log = [], last_id = 0, capacity = 100, notified = []\<rparr>,
               tasks_db = [], task_counter = 0, notes_db = [], note_counter = 0\<rparr>"

definition idle_wait :: "wait_call \<Rightarrow> bus \<Rightarrow> (py_error + pyval) \<times> bus" where
  "idle_wait c b =
     (Inr (PDict [(''status'', PStr ''timeout''),
                  (''events'', PList []),
                  (''summary'', PDict []),
                  (''last_event_id'', cursor_val (wc_since c)),
                  (''duration'', PInt (wc_timeout c))]), b)"

definition one_note :: world where
  "one_note = snd (write_note serving ''Plan'' ''body'' ''short'' None (Some ''plan'') ''t0'' ''t0'')"

section \<open>Shared lemmas\<close>

lemma wait_for_updates_unavailable:
  "event_manager w = None \<Longrightarrow>
     wait_for_updates em_wait w targets timeout since priority_min = (Inr unavailable_result, w)"
  by (simp add: wait_for_updates_def)

lemma wait_for_updates_available:
  "event_manager w = Some b \<Longrightarrow>
     wait_for_updates em_wait w targets timeout since priority_min =
       (case em_wait (forwarded_call w targets timeout since priority_min) b of
          (Inl e, b') \<Rightarrow> (Inl e, w\<lparr>event_manager := Some b'\<rparr>)
        | (Inr result, b') \<Rightarrow> (logged result, w\<lparr>event_manager := Some b'\<rparr>))"
  by (simp add: wait_for_updates_def)

lemma sync_changes_unavailable:
  "event_manager w = None \<Longrightarrow>
     sync_changes w last_sync_id include_full_state =
       (Inr (PDict [(''events'', PList []), (''next_sync_id'', cursor_val last_sync_id),
                    (''state'', PDict [])]), w)"
  by (simp add: sync_changes_def)

lemma sync_changes_available:
  "event_manager w = Some b \<Longrightarrow>
     sync_changes w last_sync_id include_full_state =
       (Inr (if include_full_state
             then dict_set (em_sync_changes b ''claude'' last_sync_id include_full_state)
                    ''state'' (full_state w)
             else em_sync_changes b ''claude'' last_sync_id include_full_state), w)"
  by (simp add: sync_changes_def Let_def)


lemma emitted_same: "emitted w w = []"
  by (simp add: emitted_def split: option.splits)

lemma emitted_standalone: "event_manager w = None \<Longrightarrow> emitted w w' = []"
  by (simp add: emitted_def)

lemma emit_notified:
  "notified (snd (emit d b)) =
     notified b @ [\<lparr>ev_id = last_id b + 1, ev_type = d_type d, ev_target = d_target d,
                    ev_priority = d_priority d, ev_payload = d_payload d,
                    ev_ui_hint = d_ui_hint d\<rparr>]"
  by (simp add: emit_def EventLog_append_def Let_def)

lemma emitted_emit_event:
  assumes "event_manager (snd (func w)) = event_manager w"
  shows "emitted w (snd (emit_event ty target hint prio func w)) =
     (case (event_manager w, fst (func w)) of
        (Some b, Inr r) \<Rightarrow>
          (if has_key r ''error'' then []
           else [\<lparr>ev_id = last_id b + 1, ev_type = ty, ev_target = target,
                   ev_priority = prio, ev_payload = r, ev_ui_hint = hint\<rparr>])
      | _ \<Rightarrow> [])"
proof (cases "func w")
  case (Pair r w')
  with assms have bus: "event_manager w' = event_manager w" by simp
  show ?thesis
  proof (cases "event_manager w")
    case None
    then show ?thesis by (simp add: emitted_def)
  next
    case (Some b)
    with bus Pair show ?thesis
      by (cases r)
         (simp_all add: emit_event_def imported_def emit_adapter_def emitted_def emit_notified)
  qed
qed

lemma fst_emit_event: "fst (emit_event ty target hint prio func w) = fst (func w)"
  by (cases "func w")
     (auto simp: emit_event_def emit_adapter_def split: sum.splits option.splits)

lemma write_note_body_bus:
  "event_manager (snd (write_note_body w title content summary tags note_id nc nu)) =
     event_manager w"
  by (simp add: write_note_body_def Let_def)



lemma write_note_result:
  "fst (write_note w title content summary tags note_id nc nu) =
     Inr (PDict [(''success'', PBool True),
                 (''action'', PStr (if resolved_id w title note_id \<in> set (keys (notes_db w))
                                    then ''updated'' else ''created'')),
                 (''note'', note_dict
                    \<lparr>n_id = resolved_id w title note_id, n_title = title, n_summary = summary,
                      n_tags = (case tags of None \<Rightarrow> [] | Some ts \<Rightarrow> ts),
                      n_content = content,
                      n_created_at = (case map_of (notes_db w) (resolved_id w title note_id) of
                                        None \<Rightarrow> nc | Some old \<Rightarrow> n_created_at old),
                      n_updated_at = nu\<rparr>)])"
  by (simp add: write_note_def fst_emit_event write_note_body_def Let_def)

lemma write_note_emitted:
  "emitted w (snd (write_note w title content summary tags note_id nc nu)) =
     (case event_manager w of
        None \<Rightarrow> []
      | Some b \<Rightarrow>
          [\<lparr>ev_id = last_id b + 1, ev_type = CREATE, ev_target = ''note'', ev_priority = HIGH,
            ev_payload = projr (fst (write_note w title content summary tags note_id nc nu)),
            ev_ui_hint = Some ''navigate_to''\<rparr>])"
  unfolding write_note_def
  by (simp add: emitted_emit_event write_note_body_bus fst_emit_event split: option.splits)
     (simp add: write_note_body_def Let_def has_key_def keys_def)

lemma write_note_bus:
  "event_manager w = Some b \<Longrightarrow>
     event_manager (snd (write_note w title content summary tags note_id nc nu)) =
       Some (snd (emit \<lparr>d_type = CREATE, d_target = ''note'', d_priority = HIGH,
                        d_payload =
                          projr (fst (write_note w title content summary tags note_id nc nu)),
                        d_ui_hint = Some ''navigate_to''\<rparr> b))"
  by (simp add: write_note_def emit_event_def imported_def emit_adapter_def write_note_body_def
      Let_def has_key_def keys_def)






text \<open>The state \<open>one_note\<close>, computed.\<close>

lemma one_note_bus:
  "event_manager one_note =
     Some \<lparr>log = [\<lparr>ev_id = 1, ev_type = CREATE, ev_target = ''note'', ev_priority = HIGH,
                    ev_payload = PDict [(''success'', PBool True), (''action'', PStr ''created''),
                       (''note'', PDict [(''id'', PStr ''plan''), (''title'', PStr ''Plan''),
                                         (''summary'', PStr ''short''), (''tags'', PList []),
                                         (''content'', PStr ''body''),
                                         (''created_at'', PStr ''t0''),
                                         (''updated_at'', PStr ''t0'')])],
                    ev_ui_hint = Some ''navigate_to''\<rparr>],
           last_id = 1, capacity = 100,
           notified = [\<lparr>ev_id = 1, ev_type = CREATE, ev_target = ''note'', ev_priority = HIGH,
                    ev_payload = PDict [(''success'', PBool True), (''action'', PStr ''created''),
                       (''note'', PDict [(''id'', PStr ''plan''), (''title'', PStr ''Plan''),
                                         (''summary'', PStr ''short''), (''tags'', PList []),
                                         (''content'', PStr ''body''),
                                         (''created_at'', PStr ''t0''),
                                         (''updated_at'', PStr ''t0'')])],
                    ev_ui_hint = Some ''navigate_to''\<rparr>]\<rparr>"
  by (simp add: one_note_def write_note_def emit_event_def imported_def serving_def
        emit_adapter_def write_note_body_def resolved_id_def next_note_counter_def truthy_def
        keys_def has_key_def note_dict_def Let_def emit_def EventLog_append_def)

lemma one_note_notes:
  "notes_db one_note =
     [(''plan'', \<lparr>n_id = ''plan'', n_title = ''Plan'', n_summary = ''short'', n_tags = [],
                  n_content = ''body'', n_created_at = ''t0'', n_updated_at = ''t0''\<rparr>)]"
  by (simp add: one_note_def write_note_def emit_event_def imported_def serving_def
        emit_adapter_def write_note_body_def resolved_id_def next_note_counter_def truthy_def
        keys_def has_key_def note_dict_def Let_def)

lemma one_note_tasks: "tasks_db one_note = []"
  by (simp add: one_note_def write_note_def emit_event_def imported_def serving_def
        emit_adapter_def write_note_body_def resolved_id_def next_note_counter_def truthy_def
        keys_def has_key_def note_dict_def Let_def)

section \<open>The timeout passed to the wait scheduler\<close>

text \<open>
  C1, as stated, at a negative timeout: a call with \<^verbatim>\<open>timeout=-5\<close> hands \<open>-5\<close> to the
  wait scheduler, which is below 0. The scheduler \<open>idle_wait\<close> reports the timeout
  it received as the duration.
\<close>

theorem negative_timeout_is_forwarded:
  "wc_timeout (forwarded_call serving None (- 5) None ''normal'') = - 5
   \<and> \<not> (0 \<le> wc_timeout (forwarded_call serving None (- 5) None ''normal''))
   \<and> fst (wait_for_updates idle_wait serving None (- 5) None ''normal'') =
       Inr (PDict [(''status'', PStr ''timeout''), (''events'', PList []),
                   (''summary'', PDict []), (''last_event_id'', PNone),
                   (''duration'', PInt (- 5))])"
  by (simp add: forwarded_call_def wait_for_updates_def serving_def idle_wait_def logged_def
      has_len_def cursor_val_def)

text \<open>
  C1, amended: the timeout passed to the wait scheduler is \<^verbatim>\<open>min(timeout, 300)\<close>. It
  never exceeds 300, a value above 300 becomes 300, and a value of at most 300, a
  negative one included, is passed on as it is. The tool does nothing else with
  the timeout: its outcome is that of the scheduler on the forwarded call.
\<close>

theorem wait_for_updates_timeout_capped:
  "wc_timeout (forwarded_call w targets timeout since priority_min) = min timeout 300
   \<and> wc_timeout (forwarded_call w targets timeout since priority_min) \<le> 300
   \<and> (300 < timeout \<longrightarrow>
        wc_timeout (forwarded_call w targets timeout since priority_min) = 300)
   \<and> (timeout \<le> 300 \<longrightarrow>
        wc_timeout (forwarded_call w targets timeout since priority_min) = timeout)
   \<and> (event_manager w = Some b \<longrightarrow>
        wait_for_updates em_wait w targets timeout since priority_min =
          (case em_wait (forwarded_call w targets timeout since priority_min) b of
             (Inl e, b') \<Rightarrow> (Inl e, w\<lparr>event_manager := Some b'\<rparr>)
           | (Inr result, b') \<Rightarrow> (logged result, w\<lparr>event_manager := Some b'\<rparr>)))"
  by (simp add: forwarded_call_def wait_for_updates_available)

theorem wait_for_updates_timeout_capped_witness:
  "(300 < (1000::int)
    \<and> wc_timeout (forwarded_call serving None 1000 None ''normal'') = 300)
   \<and> ((- 5::int) \<le> 300
    \<and> wc_timeout (forwarded_call serving None (- 5) None ''normal'') = - 5)
   \<and> (event_manager serving = Some \<lparr>log = [], last_id = 0, capacity = 100, notified = []\<rparr>
    \<and> fst (wait_for_updates idle_wait serving None 1000 None ''normal'') =
        Inr (PDict [(''status'', PStr ''timeout''), (''events'', PList []),
                    (''summary'', PDict []), (''last_event_id'', PNone),
                    (''duration'', PInt 300)]))"
  using wait_for_updates_timeout_capped
          [of serving None 1000 None "''normal''"
              "\<lparr>log = [], last_id = 0, capacity = 100, notified = []\<rparr>" idle_wait]
        wait_for_updates_timeout_capped
          [of serving None "- 5" None "''normal''"
              "\<lparr>log = [], last_id = 0, capacity = 100, notified = []\<rparr>" idle_wait]
  by (simp add: serving_def idle_wait_def logged_def has_len_def cursor_val_def
      forwarded_call_def)

section \<open>Without the event system\<close>

text \<open>
  C2: when the event system is unavailable (\<^verbatim>\<open>not event_manager\<close>, lines 164 and
  222), \<^verbatim>\<open>wait_for_updates\<close> returns a dictionary with status \<^verbatim>\<open>error\<close> and an empty
  list of events, \<^verbatim>\<open>sync_changes\<close> returns a dictionary with an empty list of
  events, and neither raises: both results are ordinary return values, and the
  module state is unchanged.
\<close>

theorem unavailable_is_structured_result:
  "event_manager w = None \<Longrightarrow>
     (\<exists>r. wait_for_updates em_wait w targets timeout since priority_min = (Inr r, w)
          \<and> dict_get r ''status'' = Some (PStr ''error'')
          \<and> dict_get r ''events'' = Some (PList []))
     \<and> (\<exists>r. sync_changes w last_sync_id include_full_state = (Inr r, w)
          \<and> dict_get r ''events'' = Some (PList []))"
  by (simp add: wait_for_updates_unavailable sync_changes_unavailable unavailable_result_def
      dict_get_def)

theorem unavailable_is_structured_result_witness:
  "event_manager standalone = None
   \<and> (\<exists>r. wait_for_updates idle_wait standalone None 30 None ''normal'' = (Inr r, standalone)
          \<and> dict_get r ''status'' = Some (PStr ''error'')
          \<and> dict_get r ''events'' = Some (PList []))
   \<and> (\<exists>r. sync_changes standalone None False = (Inr r, standalone)
          \<and> dict_get r ''events'' = Some (PList []))"
proof -
  have h: "event_manager standalone = None"
    by (simp add: standalone_def)
  show ?thesis
    using h unavailable_is_structured_result
              [OF h, of idle_wait None 30 None "''normal''" None False]
    by simp
qed

text \<open>
  C3, at the failing input: without the event system \<^verbatim>\<open>wait_for_updates\<close> returns
  the keys \<^verbatim>\<open>status\<close>, \<^verbatim>\<open>error\<close>, \<^verbatim>\<open>events\<close> and \<^verbatim>\<open>summary\<close>; the keys
  \<^verbatim>\<open>last_event_id\<close> and \<^verbatim>\<open>duration\<close>, which the docstring lists for every status,
  are missing.
\<close>

theorem unavailable_result_lacks_keys:
  "fst (wait_for_updates em_wait standalone targets timeout since priority_min) =
     Inr (PDict [(''status'', PStr ''error''),
                 (''error'', PStr ''Event system not available''),
                 (''events'', PList []),
                 (''summary'', PDict [])])
   \<and> \<not> has_key (PDict [(''status'', PStr ''error''),
                        (''error'', PStr ''Event system not available''),
                        (''events'', PList []),
                        (''summary'', PDict [])]) ''last_event_id''
   \<and> \<not> has_key (PDict [(''status'', PStr ''error''),
                        (''error'', PStr ''Event system not available''),
                        (''events'', PList []),
                        (''summary'', PDict [])]) ''duration''"
  by (simp add: wait_for_updates_def standalone_def unavailable_result_def has_key_def keys_def)

section \<open>Priority labels\<close>

text \<open>
  C4: the labels \<^verbatim>\<open>low\<close>, \<^verbatim>\<open>normal\<close>, \<^verbatim>\<open>high\<close> and \<^verbatim>\<open>critical\<close> are mapped to the
  priorities with the numeric values 0, 1, 2 and 3, whether the enumeration is
  bound or not, and every other label is mapped to 1, the value of \<^verbatim>\<open>NORMAL\<close>. The
  lookup cannot fail: with the event system bound the filter built from the
  priority is part of the forwarded call, and the outcome of the tool is that of
  the scheduler on this call.
\<close>

theorem priority_labels_mapped:
  "numeric (priority_of bound ''low'') = 0
   \<and> numeric (priority_of bound ''normal'') = 1
   \<and> numeric (priority_of bound ''high'') = 2
   \<and> numeric (priority_of bound ''critical'') = 3
   \<and> (label \<noteq> ''low'' \<and> label \<noteq> ''normal'' \<and> label \<noteq> ''high'' \<and> label \<noteq> ''critical''
        \<longrightarrow> priority_of bound label = PrioInt 1
            \<and> numeric (priority_of bound label) = priority_value NORMAL)
   \<and> (event_manager w = Some b \<longrightarrow>
        wc_filters (forwarded_call w targets timeout since label) =
          Some \<lparr>f_targets = targets, f_priority_min = priority_of True label, f_since = since\<rparr>
        \<and> wait_for_updates em_wait w targets timeout since label =
          (case em_wait (forwarded_call w targets timeout since label) b of
             (Inl e, b') \<Rightarrow> (Inl e, w\<lparr>event_manager := Some b'\<rparr>)
           | (Inr result, b') \<Rightarrow> (logged result, w\<lparr>event_manager := Some b'\<rparr>)))"
  by (simp add: priority_of_def priority_map_def forwarded_call_def filter_obj_def imported_def
      wait_for_updates_def)

theorem priority_labels_mapped_witness:
  "(''urgent'' \<noteq> ''low'' \<and> ''urgent'' \<noteq> ''normal'' \<and> ''urgent'' \<noteq> ''high''
      \<and> ''urgent'' \<noteq> ''critical''
    \<and> priority_of True ''urgent'' = PrioInt 1)
   \<and> (event_manager serving = Some \<lparr>log = [], last_id = 0, capacity = 100, notified = []\<rparr>
    \<and> wc_filters (forwarded_call serving None 30 None ''urgent'') =
        Some \<lparr>f_targets = None, f_priority_min = PrioInt 1, f_since = None\<rparr>)"
  using priority_labels_mapped
          [of True "''urgent''" serving
              "\<lparr>log = [], last_id = 0, capacity = 100, notified = []\<rparr>" None 30 None idle_wait]
  by (simp add: serving_def)

section \<open>Operations that emit nothing\<close>

text \<open>
  C5: a \<^verbatim>\<open>delete_note\<close> call whose \<^verbatim>\<open>note_id\<close> is not in \<^verbatim>\<open>notes_db\<close> returns the
  error dictionary and leaves the whole module state as it was, the event log and
  the notifications to waiters and subscribers included; no event is emitted.
\<close>

theorem delete_missing_note_emits_nothing:
  "note_id \<notin> set (keys (notes_db w)) \<Longrightarrow>
     delete_note w note_id =
       (Inr (PDict [(''error'', PStr (''Note with ID '' @ [CHR 0x27] @ note_id @ [CHR 0x27]
                                        @ '' not found''))]), w)
     \<and> emitted w (snd (delete_note w note_id)) = []"
  by (simp add: delete_note_def emit_event_def emit_adapter_def delete_note_body_def has_key_def
      keys_def emitted_same)

theorem delete_missing_note_emits_nothing_witness:
  "''ghost'' \<notin> set (keys (notes_db one_note))
   \<and> fst (delete_note one_note ''ghost'') =
       Inr (PDict [(''error'', PStr ''Note with ID 'ghost' not found'')])
   \<and> snd (delete_note one_note ''ghost'') = one_note
   \<and> emitted one_note (snd (delete_note one_note ''ghost'')) = []"
proof -
  have h: "''ghost'' \<notin> set (keys (notes_db one_note))"
    by (simp add: one_note_def write_note_def emit_event_def imported_def serving_def
        emit_adapter_def write_note_body_def resolved_id_def truthy_def keys_def has_key_def
        Let_def)
  show ?thesis
    using h delete_missing_note_emits_nothing [OF h]
    by (simp add: emitted_same)
qed

text \<open>
  C9: no task operation emits an event. Whatever the call to \<^verbatim>\<open>task_create\<close>,
  \<^verbatim>\<open>task_update\<close> or \<^verbatim>\<open>task_delete\<close> (or \<^verbatim>\<open>task_list\<close>) and whether it succeeds or
  not, the event manager's state (log, id counter, notifications to waiters and
  subscribers) is the same afterwards.
\<close>

theorem task_operations_emit_nothing:
  "event_manager (snd (run_task_call w c)) = event_manager w
   \<and> emitted w (snd (run_task_call w c)) = []"
  by (cases c)
     (simp_all add: task_create_def task_list_def task_update_def task_delete_def Let_def
        emitted_def split: option.splits)

theorem task_operations_emit_nothing_witness:
  "event_manager (snd (run_task_call one_note (TaskDelete ''task_1''))) = event_manager one_note"
  using task_operations_emit_nothing [of one_note "TaskDelete ''task_1''"]
  by simp

section \<open>Events emitted by \<^verbatim>\<open>write_note\<close>\<close>

text \<open>
  C6, as stated, in standalone mode: there \<^verbatim>\<open>emit_event\<close> is the decorator that
  returns the function unchanged, and a successful \<^verbatim>\<open>write_note\<close> call that creates
  a new note emits no event.
\<close>

theorem standalone_write_note_emits_nothing:
  "fst (write_note standalone ''Plan'' ''body'' ''short'' None (Some ''plan'') ''t0'' ''t0'') =
     Inr (PDict [(''success'', PBool True), (''action'', PStr ''created''),
                 (''note'', PDict [(''id'', PStr ''plan''), (''title'', PStr ''Plan''),
                                   (''summary'', PStr ''short''), (''tags'', PList []),
                                   (''content'', PStr ''body''), (''created_at'', PStr ''t0''),
                                   (''updated_at'', PStr ''t0'')])])
   \<and> emitted standalone
        (snd (write_note standalone ''Plan'' ''body'' ''short'' None (Some ''plan'')
                ''t0'' ''t0'')) = []
   \<and> event_manager
        (snd (write_note standalone ''Plan'' ''body'' ''short'' None (Some ''plan'')
                ''t0'' ''t0'')) = None"
  by (simp add: write_note_def emit_event_def imported_def standalone_def write_note_body_def
      resolved_id_def next_note_counter_def truthy_def keys_def note_dict_def emitted_def Let_def)

text \<open>
  C6, amended: with the event system bound, every successful \<^verbatim>\<open>write_note\<close> call
  that creates a new note emits exactly one event, by one call of \<^verbatim>\<open>emit\<close>; the
  event has the next id, type \<^verbatim>\<open>CREATE\<close>, target \<^verbatim>\<open>note\<close>, priority \<^verbatim>\<open>HIGH\<close> and the
  hint \<^verbatim>\<open>navigate_to\<close>, and carries the result of the call. In standalone mode the
  call emits nothing.
\<close>

theorem new_note_emits_one_create_event:
  "(event_manager w = Some b \<and> resolved_id w title note_id \<notin> set (keys (notes_db w)) \<longrightarrow>
      (\<exists>r. fst (write_note w title content summary tags note_id nc nu) = Inr r
          \<and> dict_get r ''success'' = Some (PBool True)
          \<and> dict_get r ''action'' = Some (PStr ''created'')
          \<and> emitted w (snd (write_note w title content summary tags note_id nc nu)) =
              [\<lparr>ev_id = last_id b + 1, ev_type = CREATE, ev_target = ''note'',
                ev_priority = HIGH, ev_payload = r, ev_ui_hint = Some ''navigate_to''\<rparr>]
          \<and> event_manager (snd (write_note w title content summary tags note_id nc nu)) =
              Some (snd (emit \<lparr>d_type = CREATE, d_target = ''note'', d_priority = HIGH,
                               d_payload = r, d_ui_hint = Some ''navigate_to''\<rparr> b))))
   \<and> (event_manager w = None \<longrightarrow>
        emitted w (snd (write_note w title content summary tags note_id nc nu)) = [])"
  by (simp add: write_note_emitted write_note_bus write_note_result dict_get_def)

theorem new_note_emits_one_create_event_witness:
  "(event_manager serving = Some \<lparr>log = [], last_id = 0, capacity = 100, notified = []\<rparr>
    \<and> resolved_id serving ''Plan'' (Some ''plan'') \<notin> set (keys (notes_db serving))
    \<and> (\<exists>r. fst (write_note serving ''Plan'' ''body'' ''short'' None (Some ''plan'')
                   ''t0'' ''t0'') = Inr r
          \<and> dict_get r ''action'' = Some (PStr ''created'')
          \<and> emitted serving
               (snd (write_note serving ''Plan'' ''body'' ''short'' None (Some ''plan'')
                       ''t0'' ''t0'')) =
              [\<lparr>ev_id = 1, ev_type = CREATE, ev_target = ''note'',
                ev_priority = HIGH, ev_payload = r, ev_ui_hint = Some ''navigate_to''\<rparr>]))
   \<and> (event_manager standalone = None
    \<and> emitted standalone
        (snd (write_note standalone ''Plan'' ''body'' ''short'' None (Some ''plan'')
                ''t0'' ''t0'')) = [])"
proof -
  have h1: "event_manager serving = Some \<lparr>log = [], last_id = 0, capacity = 100, notified = []\<rparr>"
    by (simp add: serving_def)
  have h2: "resolved_id serving ''Plan'' (Some ''plan'') \<notin> set (keys (notes_db serving))"
    by (simp add: serving_def keys_def)
  have h3: "event_manager standalone = None"
    by (simp add: standalone_def)
  show ?thesis
    using h1 h2 h3
      new_note_emits_one_create_event
        [of serving "\<lparr>log = [], last_id = 0, capacity = 100, notified = []\<rparr>"
            "''Plan''" "Some ''plan''" "''body''" "''short''" None "''t0''" "''t0''"]
      new_note_emits_one_create_event
        [of standalone "\<lparr>log = [], last_id = 0, capacity = 100, notified = []\<rparr>"
            "''Plan''" "Some ''plan''" "''body''" "''short''" None "''t0''" "''t0''"]
    by auto
qed



section \<open>Repeated synchronisation and the full state\<close>




text \<open>
  C8, as stated, in standalone mode: the result carries the key \<^verbatim>\<open>state\<close> although
  \<^verbatim>\<open>include_full_state\<close> is false, and with \<^verbatim>\<open>include_full_state\<close> true the state is
  the empty dictionary although a note is stored.
\<close>

theorem standalone_sync_always_has_state:
  "fst (sync_changes standalone None False) =
     Inr (PDict [(''events'', PList []), (''next_sync_id'', PNone), (''state'', PDict [])])
   \<and> has_key (PDict [(''events'', PList []), (''next_sync_id'', PNone), (''state'', PDict [])])
        ''state''
   \<and> notes_db (snd (write_note standalone ''Plan'' ''body'' ''short'' None (Some ''plan'')
                      ''t0'' ''t0'')) \<noteq> []
   \<and> fst (sync_changes
            (snd (write_note standalone ''Plan'' ''body'' ''short'' None (Some ''plan'')
                    ''t0'' ''t0'')) None True) =
       Inr (PDict [(''events'', PList []), (''next_sync_id'', PNone), (''state'', PDict [])])"
  by (simp add: sync_changes_def standalone_def cursor_val_def has_key_def keys_def
      write_note_def emit_event_def imported_def write_note_body_def Let_def)

text \<open>
  C8, amended: with the event system bound, the result of \<^verbatim>\<open>sync_changes\<close> contains
  the key \<^verbatim>\<open>state\<close> if and only if \<^verbatim>\<open>include_full_state\<close> is true, and the state is
  then built from the current stores: the notes of \<^verbatim>\<open>notes_db\<close> under \<^verbatim>\<open>notes\<close> and the
  tasks of \<^verbatim>\<open>tasks_db\<close> under \<^verbatim>\<open>tasks\<close>. In standalone mode the result contains the
  key \<^verbatim>\<open>state\<close> whatever \<^verbatim>\<open>include_full_state\<close> is.
\<close>

theorem sync_changes_state_key:
  "(event_manager w = Some b \<longrightarrow>
      (\<exists>r. sync_changes w last_sync_id include_full_state = (Inr r, w)
          \<and> (has_key r ''state'' \<longleftrightarrow> include_full_state)
          \<and> (include_full_state \<longrightarrow>
                dict_get r ''state'' =
                  Some (PDict [(''notes'', PList (map note_dict (vals (notes_db w)))),
                               (''tasks'', PList (map task_dict (vals (tasks_db w))))]))))
   \<and> (event_manager w = None \<longrightarrow>
        (\<exists>r. sync_changes w last_sync_id include_full_state = (Inr r, w)
            \<and> has_key r ''state''))"
  by (simp add: sync_changes_available sync_changes_unavailable em_sync_changes_def Let_def
      dict_set_def has_key_def keys_def dict_get_def full_state_def)

theorem sync_changes_state_key_witness:
  "(event_manager one_note \<noteq> None
    \<and> (\<exists>r. fst (sync_changes one_note None True) = Inr r
          \<and> has_key r ''state''
          \<and> dict_get r ''state'' =
              Some (PDict [(''notes'', PList [PDict [(''id'', PStr ''plan''),
                              (''title'', PStr ''Plan''), (''summary'', PStr ''short''),
                              (''tags'', PList []), (''content'', PStr ''body''),
                              (''created_at'', PStr ''t0''), (''updated_at'', PStr ''t0'')]]),
                           (''tasks'', PList [])])))
   \<and> (event_manager serving \<noteq> None
    \<and> (\<exists>r. fst (sync_changes serving None False) = Inr r \<and> \<not> has_key r ''state''))
   \<and> (event_manager standalone = None
    \<and> (\<exists>r. fst (sync_changes standalone None False) = Inr r \<and> has_key r ''state''))"
proof -
  have h1: "event_manager serving = Some \<lparr>log = [], last_id = 0, capacity = 100, notified = []\<rparr>"
    by (simp add: serving_def)
  have h2: "event_manager standalone = None"
    by (simp add: standalone_def)
  have h3: "event_manager one_note = Some (the (event_manager one_note))"
    by (simp add: one_note_bus)
  show ?thesis
    using h1 h2 h3
      sync_changes_state_key [of one_note "the (event_manager one_note)" None True]
      sync_changes_state_key
        [of serving "\<lparr>log = [], last_id = 0, capacity = 100, notified = []\<rparr>" None False]
      sync_changes_state_key
        [of standalone "\<lparr>log = [], last_id = 0, capacity = 100, notified = []\<rparr>" None False]
    by (auto simp: one_note_notes one_note_tasks vals_def note_dict_def)
qed

end
